theory Spec2Isabelle
  imports Complex_Main "HOL-Library.Word"
begin

section \<open>Errors raised by the control plane\<close>

text \<open>
  Every exception class the modelled services throw is a constructor; the string is the
  message the source passes.  \<open>HttpException\<close> carries the message and the HTTP status.
  \<open>RecordNotFound\<close> is what Prisma's \<open>update\<close> raises when no row matches the unique
  \<open>where\<close>.  A function that can throw returns \<open>error + 'a\<close>, with \<open>Inl\<close> for
  the exception.  Calls of the logger are left out, except the warning of the
  \<open>PterodactylService\<close> constructor.
\<close>

datatype error =
    Error string
  | NotFoundException string
  | UnauthorizedException string
  | HttpException string nat
  | TypeError string
  | RecordNotFound

section \<open>EncryptionService (encryption.service.ts)\<close>

type_synonym byte = "8 word"
type_synonym bytes = "byte list"

text \<open>
  \<open>sodium-native\<close> is an external library: its constants and the two secretbox calls
  are parameters.  \<open>crypto_secretbox_easy m n k\<close> is the content written to the
  ciphertext buffer (\<open>None\<close>: the native call throws);
  \<open>crypto_secretbox_open_easy c n k\<close> is \<open>Some m\<close> when the call returns \<open>true\<close>
  with \<open>m\<close> in the message buffer and \<open>None\<close> when it returns \<open>false\<close>.
\<close>

record sodium =
  crypto_secretbox_NONCEBYTES :: nat
  crypto_secretbox_MACBYTES :: nat
  crypto_secretbox_KEYBYTES :: nat
  crypto_secretbox_easy :: "bytes \<Rightarrow> bytes \<Rightarrow> bytes \<Rightarrow> bytes option"
  crypto_secretbox_open_easy :: "bytes \<Rightarrow> bytes \<Rightarrow> bytes \<Rightarrow> bytes option"

text \<open>
  The conversions of Node's \<open>Buffer\<close> (\<open>Buffer.from(s, enc)\<close>, \<open>buf.toString(enc)\<close>)
  belong to the runtime and are parameters too.
\<close>

record codec =
  utf8_encode :: "string \<Rightarrow> bytes"
  utf8_decode :: "bytes \<Rightarrow> string"
  base64_encode :: "bytes \<Rightarrow> string"
  base64_decode :: "string \<Rightarrow> bytes"

record EncryptionService =
  enc_sodium :: sodium
  enc_codec :: codec
  enc_key :: bytes

text \<open>
  \<open>sodium.randombytes_buf(nonce)\<close> fills the nonce buffer, whose size is
  \<open>crypto_secretbox_NONCEBYTES\<close>, from the system's entropy; \<open>entropy i\<close> is the byte
  written at offset \<open>i\<close> by this call.
\<close>

definition randombytes_buf :: "(nat \<Rightarrow> byte) \<Rightarrow> nat \<Rightarrow> bytes" where
  "randombytes_buf entropy n = map entropy [0..<n]"

definition encrypt :: "EncryptionService \<Rightarrow> (nat \<Rightarrow> byte) \<Rightarrow> string \<Rightarrow> error + string" where
  "encrypt svc entropy plaintext =
     (let message = utf8_encode (enc_codec svc) plaintext;
          nonce = randombytes_buf entropy (crypto_secretbox_NONCEBYTES (enc_sodium svc))
      in case crypto_secretbox_easy (enc_sodium svc) message nonce (enc_key svc) of
           None \<Rightarrow> Inl (Error ''Encryption failed'')
         | Some ciphertext \<Rightarrow> Inr (base64_encode (enc_codec svc) (nonce @ ciphertext)))"



subsection \<open>A reference instance of the external interfaces\<close>

text \<open>
  A small secretbox with the library's sizes, used to run the model on concrete data:
  the tag is the first 16 bytes of the key followed by the nonce, the message is stored
  as it is.  It has no security; it only has the interface.
\<close>

definition ref_tag :: "bytes \<Rightarrow> bytes \<Rightarrow> bytes" where
  "ref_tag n k = take 16 (k @ n @ replicate 16 0)"

definition ref_sodium :: sodium where
  "ref_sodium = \<lparr>
     crypto_secretbox_NONCEBYTES = 24,
     crypto_secretbox_MACBYTES = 16,
     crypto_secretbox_KEYBYTES = 32,
     crypto_secretbox_easy = (\<lambda>m n k. Some (ref_tag n k @ m)),
     crypto_secretbox_open_easy =
       (\<lambda>c n k. if take 16 c = ref_tag n k then Some (drop 16 c) else None) \<rparr>"

text \<open>A codec that writes each byte as the character with that code.\<close>

definition ref_codec :: codec where
  "ref_codec = \<lparr>
     utf8_encode = map (\<lambda>c. of_nat (of_char c)),
     utf8_decode = map (\<lambda>b. char_of (unat b)),
     base64_encode = map (\<lambda>b. char_of (unat b)),
     base64_decode = map (\<lambda>c. of_nat (of_char c)) \<rparr>"

definition ref_encryption :: "bytes \<Rightarrow> EncryptionService" where
  "ref_encryption k = \<lparr> enc_sodium = ref_sodium, enc_codec = ref_codec, enc_key = k \<rparr>"

section \<open>PterodactylService (pterodactyl.service.ts)\<close>

text \<open>\<open>configService.get(name)\<close>; \<open>None\<close> is \<open>undefined\<close>.\<close>

type_synonym ConfigService = "string \<rightharpoonup> string"

text \<open>A string option read in a boolean position: \<open>undefined\<close> and \<open>''\<close> are falsy.\<close>

definition truthy :: "string option \<Rightarrow> bool" where
  "truthy v = (case v of None \<Rightarrow> False | Some s \<Rightarrow> s \<noteq> [])"

record PterodactylService =
  baseUrl :: string
  apiKey :: string
  encryptionService :: EncryptionService


subsection \<open>Requests to the external daemon\<close>

text \<open>The request bodies \<open>enrollNode\<close> sends, and \<open>undefined\<close> for a request without body.\<close>

datatype request_data =
    NoData
  | CreateLocationDto (loc_short: string) (loc_long: string)
  | CreateNodeDto (dto_name: string) (dto_description: string) (dto_location_id: int)
      (dto_fqdn: string) (dto_memory: int) (dto_disk: int) (dto_public: bool)
  | CreateAllocationDto (alloc_ip: string) (alloc_ports: "int list")

record http_request =
  req_method :: string
  req_url :: string
  req_headers :: "(string \<times> string) list"
  req_data :: request_data

text \<open>
  \<open>response.data\<close>: of the object the daemon answers with, the model keeps the two
  properties the services read and the rest as an opaque string.
\<close>

record pterodactyl_object =
  obj_id :: int
  obj_daemon_token :: string
  obj_rest :: string

text \<open>
  What \<open>firstValueFrom(this.httpService.request(config))\<close> does: it resolves with a
  response, or it throws an error that has a \<open>message\<close> and, when the daemon answered,
  \<open>response.status\<close>.
\<close>

datatype http_outcome =
    Resolved pterodactyl_object
  | Rejected string "nat option"

text \<open>
  The world outside the process: \<open>daemon k r\<close> is the outcome of request \<open>r\<close> when it
  is the \<open>k\<close>-th request dispatched; \<open>sent\<close> lists the requests dispatched so far and
  \<open>slept\<close> the delays (in milliseconds) awaited with \<open>setTimeout\<close>.
\<close>

record world =
  daemon :: "nat \<Rightarrow> http_request \<Rightarrow> http_outcome"
  sent :: "http_request list"
  slept :: "nat list"

definition request_config ::
  "PterodactylService \<Rightarrow> string \<Rightarrow> string \<Rightarrow> request_data \<Rightarrow> http_request" where
  "request_config ps method endpoint data =
     \<lparr> req_method = method,
       req_url = baseUrl ps @ ''/api/application'' @ endpoint,
       req_headers = [(''Authorization'', ''Bearer '' @ apiKey ps),
                      (''Content-Type'', ''application/json''),
                      (''Accept'', ''application/json'')],
       req_data = data \<rparr>"

text \<open>\<open>error.response?.status || HttpStatus.INTERNAL_SERVER_ERROR\<close>\<close>

definition status_or_500 :: "nat option \<Rightarrow> nat" where
  "status_or_500 st = (case st of None \<Rightarrow> 500 | Some n \<Rightarrow> if n = 0 then 500 else n)"

text \<open>
  The \<open>for\<close> loop of \<open>makeRequest\<close>, from the value \<open>attempt\<close> of the loop variable.
  When the loop ends without returning or throwing, the function returns \<open>undefined\<close>
  (\<open>Inr None\<close>).
\<close>

function makeRequest_loop ::
  "http_request \<Rightarrow> nat \<Rightarrow> nat \<Rightarrow> world \<Rightarrow> (error + pterodactyl_object option) \<times> world" where
  "makeRequest_loop config retries attempt w =
     (if attempt \<le> retries
      then (case daemon w (length (sent w)) config of
              Resolved d \<Rightarrow> (Inr (Some d), w\<lparr>sent := sent w @ [config]\<rparr>)
            | Rejected message st \<Rightarrow>
                if attempt = retries
                then (Inl (HttpException (''Pterodactyl API request failed: '' @ message)
                             (status_or_500 st)),
                      w\<lparr>sent := sent w @ [config]\<rparr>)
                else makeRequest_loop config retries (attempt + 1)
                       (w\<lparr>sent := sent w @ [config],
                          slept := slept w @ [2 ^ attempt * 1000]\<rparr>))
      else (Inr None, w))"
  by pat_completeness auto
termination
  by (relation "measure (\<lambda>(config, retries, attempt, w). retries + 1 - attempt)") auto

definition makeRequest ::
  "PterodactylService \<Rightarrow> string \<Rightarrow> string \<Rightarrow> request_data \<Rightarrow> nat \<Rightarrow> world
     \<Rightarrow> (error + pterodactyl_object option) \<times> world" where
  "makeRequest ps method endpoint data retries w =
     makeRequest_loop (request_config ps method endpoint data) retries 1 w"

text \<open>A number inside a template literal (an integer: decimal digits, with a sign).\<close>

function digits :: "nat \<Rightarrow> string" where
  "digits n = (if n < 10 then [char_of (48 + n)]
               else digits (n div 10) @ [char_of (48 + n mod 10)])"
  by pat_completeness auto
termination
  by (relation "measure id") auto

definition number_toString :: "int \<Rightarrow> string" where
  "number_toString i = (if i < 0 then ''-'' @ digits (nat (- i)) else digits (nat i))"

text \<open>The callers leave \<open>retries\<close> out, so it has its default value 3.\<close>

definition createLocation ::
  "PterodactylService \<Rightarrow> request_data \<Rightarrow> world \<Rightarrow> (error + pterodactyl_object option) \<times> world" where
  "createLocation ps locationData w = makeRequest ps ''POST'' ''/locations'' locationData 3 w"

definition createNode ::
  "PterodactylService \<Rightarrow> request_data \<Rightarrow> world \<Rightarrow> (error + pterodactyl_object option) \<times> world" where
  "createNode ps nodeData w = makeRequest ps ''POST'' ''/nodes'' nodeData 3 w"

definition getNodeConfiguration ::
  "PterodactylService \<Rightarrow> int \<Rightarrow> world \<Rightarrow> (error + pterodactyl_object option) \<times> world" where
  "getNodeConfiguration ps i w =
     makeRequest ps ''GET'' (''/nodes/'' @ number_toString i @ ''/configuration'') NoData 3 w"

definition createAllocation ::
  "PterodactylService \<Rightarrow> int \<Rightarrow> request_data \<Rightarrow> world
     \<Rightarrow> (error + pterodactyl_object option) \<times> world" where
  "createAllocation ps nodeId allocationData w =
     makeRequest ps ''POST'' (''/nodes/'' @ number_toString nodeId @ ''/allocations'')
       allocationData 3 w"

definition encryptApiKey :: "PterodactylService \<Rightarrow> (nat \<Rightarrow> byte) \<Rightarrow> string \<Rightarrow> error + string" where
  "encryptApiKey ps entropy k = encrypt (encryptionService ps) entropy k"

text \<open>A service object used to run the model on concrete data.\<close>

definition ref_service :: PterodactylService where
  "ref_service = \<lparr> baseUrl = ''https://panel.test'', apiKey = ''ptla_1'',
                   encryptionService = ref_encryption (replicate 32 7) \<rparr>"

section \<open>The database (Prisma models Node, Tenant, NodeMetric)\<close>

text \<open>
  Modelled from the spec: the Prisma schema is not among the sources.  The columns of
  \<open>Node\<close> and \<open>NodeMetric\<close> are those the services read and write; \<open>status\<close> is the
  string the services store (\<open>'pending'\<close>, \<open>'installing'\<close>, \<open>'online'\<close>, \<open>'error'\<close>);
  a nullable column is an \<open>option\<close>; a date is in milliseconds since the epoch; the
  \<open>timestamp\<close> of a metric row (the column \<open>findOne\<close> orders by, the spec's Metric
  Sample timestamp) is filled by the database with the time of the insert.
\<close>

record Tenant =
  tenant_id :: string
  tenant_name :: string

record Node =
  node_id :: string
  tenantId :: string
  node_name :: string
  fqdn :: string
  publicIp :: string
  privateIp :: "string option"
  cpuCores :: int
  memoryMb :: int
  diskGb :: int
  pterodactylId :: "int option"
  locationId :: "int option"
  daemonToken :: "string option"
  status :: string
  enrollmentToken :: "string option"
  enrollmentExpiresAt :: "int option"
  lastHeartbeat :: "int option"
  agentVersion :: "string option"
  wingsVersion :: "string option"

record NodeMetric =
  metric_nodeId :: string
  cpuUsage :: real
  memoryUsage :: real
  diskUsage :: real
  networkRx :: int
  networkTx :: int
  timestamp :: int

record db =
  nodes :: "Node list"
  tenants :: "Tenant list"
  nodeMetrics :: "NodeMetric list"

text \<open>\<open>prisma.node.findUnique\<close> on the two unique columns, and the included tenant.\<close>

definition node_findUnique_enrollmentToken :: "db \<Rightarrow> string \<Rightarrow> Node option" where
  "node_findUnique_enrollmentToken d token =
     find (\<lambda>n. enrollmentToken n = Some token) (nodes d)"

definition node_findUnique_id :: "db \<Rightarrow> string \<Rightarrow> Node option" where
  "node_findUnique_id d i = find (\<lambda>n. node_id n = i) (nodes d)"

definition node_tenant :: "db \<Rightarrow> Node \<Rightarrow> Tenant option" where
  "node_tenant d n = find (\<lambda>t. tenant_id t = tenantId n) (tenants d)"

text \<open>
  \<open>prisma.node.update({ where: { id }, data })\<close>: \<open>f\<close> is the effect of \<open>data\<close> on
  the row; without a row of that id the call throws.
\<close>

definition node_update :: "db \<Rightarrow> string \<Rightarrow> (Node \<Rightarrow> Node) \<Rightarrow> error + db" where
  "node_update d i f =
     (if \<exists>n \<in> set (nodes d). node_id n = i
      then Inr (d\<lparr>nodes := map (\<lambda>n. if node_id n = i then f n else n) (nodes d)\<rparr>)
      else Inl RecordNotFound)"

definition nodeMetric_create :: "db \<Rightarrow> NodeMetric \<Rightarrow> db" where
  "nodeMetric_create d row = d\<lparr>nodeMetrics := nodeMetrics d @ [row]\<rparr>"

text \<open>
  The constraints the schema puts on the table: \<open>findUnique\<close> is only offered on
  unique columns, so ids are distinct and no two rows carry the same enrollment token.
\<close>

definition unique_columns :: "db \<Rightarrow> bool" where
  "unique_columns d =
     (distinct (map node_id (nodes d))
      \<and> distinct (filter (\<lambda>t. t \<noteq> None) (map enrollmentToken (nodes d))))"

section \<open>AgentService (agent.service.ts)\<close>

text \<open>
  The heartbeat body (\<open>metrics: any\<close>): a property the sender left out is \<open>None\<close>.
\<close>

record system_metrics =
  sys_cpuUsage :: real
  sys_memoryUsage :: real
  sys_diskUsage :: real
  sys_networkRx :: "int option"
  sys_networkTx :: "int option"

record heartbeat =
  hb_agentVersion :: "string option"
  hb_wingsVersion :: "string option"
  hb_system :: "system_metrics option"

text \<open>\<open>BigInt(v || 0)\<close>\<close>

definition bigint_or_0 :: "int option \<Rightarrow> int" where
  "bigint_or_0 v = (case v of None \<Rightarrow> 0 | Some i \<Rightarrow> i)"

text \<open>In \<open>data\<close>, a property whose value is \<open>undefined\<close> leaves the column as it is.\<close>

definition set_if_defined :: "string option \<Rightarrow> string option \<Rightarrow> string option" where
  "set_if_defined v old = (case v of None \<Rightarrow> old | Some s \<Rightarrow> Some s)"

text \<open>The \<open>data\<close> of \<open>prisma.nodeMetric.create\<close> in \<open>handleHeartbeat\<close>.\<close>

definition heartbeat_metric :: "string \<Rightarrow> system_metrics \<Rightarrow> int \<Rightarrow> NodeMetric" where
  "heartbeat_metric nodeId sys now =
     \<lparr> metric_nodeId = nodeId,
       cpuUsage = sys_cpuUsage sys,
       memoryUsage = sys_memoryUsage sys,
       diskUsage = sys_diskUsage sys,
       networkRx = bigint_or_0 (sys_networkRx sys),
       networkTx = bigint_or_0 (sys_networkTx sys),
       timestamp = now \<rparr>"

text \<open>The \<open>data\<close> of \<open>prisma.node.update\<close> in \<open>handleHeartbeat\<close>, as a change of the row.\<close>

definition heartbeat_update :: "heartbeat \<Rightarrow> int \<Rightarrow> Node \<Rightarrow> Node" where
  "heartbeat_update metrics now n =
     n\<lparr> lastHeartbeat := Some now,
        status := ''online'',
        agentVersion := set_if_defined (hb_agentVersion metrics) (agentVersion n),
        wingsVersion := set_if_defined (hb_wingsVersion metrics) (wingsVersion n) \<rparr>"

definition handleHeartbeat ::
  "string \<Rightarrow> heartbeat \<Rightarrow> int \<Rightarrow> db \<Rightarrow> (error + string) \<times> db" where
  "handleHeartbeat nodeId metrics now d =
     (case node_update d nodeId (heartbeat_update metrics now) of
        Inl e \<Rightarrow> (Inl e, d)
      | Inr d1 \<Rightarrow>
          (Inr ''ok'',
           case hb_system metrics of
             None \<Rightarrow> d1
           | Some sys \<Rightarrow> nodeMetric_create d1 (heartbeat_metric nodeId sys now)))"

section \<open>NodesService (nodes.service.ts)\<close>

text \<open>
  \<open>updateHeartbeat\<close> takes the system metrics themselves; \<open>BigInt(undefined)\<close> throws
  after the node row has been written.
\<close>

definition updateHeartbeat ::
  "string \<Rightarrow> system_metrics \<Rightarrow> int \<Rightarrow> db \<Rightarrow> (error + unit) \<times> db" where
  "updateHeartbeat nodeId metrics now d =
     (case node_update d nodeId (\<lambda>n. n\<lparr> lastHeartbeat := Some now, status := ''online'' \<rparr>) of
        Inl e \<Rightarrow> (Inl e, d)
      | Inr d1 \<Rightarrow>
          (case (sys_networkRx metrics, sys_networkTx metrics) of
             (Some rx, Some tx) \<Rightarrow>
               (Inr (),
                nodeMetric_create d1
                  \<lparr> metric_nodeId = nodeId,
                    cpuUsage = sys_cpuUsage metrics,
                    memoryUsage = sys_memoryUsage metrics,
                    diskUsage = sys_diskUsage metrics,
                    networkRx = rx,
                    networkTx = tx,
                    timestamp = now \<rparr>)
           | _ \<Rightarrow> (Inl (TypeError ''Cannot convert undefined to a BigInt''), d1)))"

subsection \<open>A database with one pending node\<close>

text \<open>
  The row \<open>generateEnrollmentToken\<close> creates (at time 0, so that the token expires at
  24 hours), and its tenant.
\<close>

definition ref_node :: Node where
  "ref_node = \<lparr> node_id = ''n1'', tenantId = ''tenant-0001'', node_name = ''Pending Node'',
                fqdn = ''pending'', publicIp = ''0.0.0.0'', privateIp = None,
                cpuCores = 0, memoryMb = 0, diskGb = 0,
                pterodactylId = None, locationId = None, daemonToken = None,
                status = ''pending'',
                enrollmentToken = Some ''tok-A'', enrollmentExpiresAt = Some 86400000,
                lastHeartbeat = None, agentVersion = None, wingsVersion = None \<rparr>"

definition ref_db :: db where
  "ref_db = \<lparr> nodes = [ref_node],
              tenants = [\<lparr> tenant_id = ''tenant-0001'', tenant_name = ''Demo'' \<rparr>],
              nodeMetrics = [] \<rparr>"

definition ref_system :: system_metrics where
  "ref_system = \<lparr> sys_cpuUsage = 12.5, sys_memoryUsage = 40, sys_diskUsage = 7,
                  sys_networkRx = Some 1024, sys_networkTx = None \<rparr>"

definition ref_heartbeat :: heartbeat where
  "ref_heartbeat = \<lparr> hb_agentVersion = Some ''1.0.0'', hb_wingsVersion = None,
                     hb_system = Some ref_system \<rparr>"

section \<open>Enrollment (NodesService.enrollNode)\<close>

text \<open>What the agent reports about its host (\<open>nodeData: any\<close>).\<close>

record nodeData =
  nd_name :: string
  nd_fqdn :: string
  nd_publicIp :: string
  nd_privateIp :: "string option"
  nd_cpuCores :: int
  nd_memoryMb :: int
  nd_diskGb :: int

text \<open>The object \<open>enrollNode\<close> returns: these two properties and no other.\<close>

record enroll_result =
  res_nodeId :: string
  res_daemonConfig :: "pterodactyl_object option"

text \<open>
  \<open>node.enrollmentExpiresAt < new Date()\<close>: both sides are converted to numbers, and
  \<open>null\<close> converts to 0.
\<close>

definition date_before :: "int option \<Rightarrow> int \<Rightarrow> bool" where
  "date_before t now = (case t of None \<Rightarrow> 0 < now | Some ms \<Rightarrow> ms < now)"

text \<open>The \<open>data\<close> of the update of the node row, as a change of the row.\<close>

definition enroll_update ::
  "nodeData \<Rightarrow> pterodactyl_object \<Rightarrow> pterodactyl_object \<Rightarrow> string \<Rightarrow> Node \<Rightarrow> Node" where
  "enroll_update nodeData pterodactylNode location encrypted n =
     n\<lparr> node_name := nd_name nodeData,
        fqdn := nd_fqdn nodeData,
        publicIp := nd_publicIp nodeData,
        privateIp := set_if_defined (nd_privateIp nodeData) (privateIp n),
        cpuCores := nd_cpuCores nodeData,
        memoryMb := nd_memoryMb nodeData,
        diskGb := nd_diskGb nodeData,
        pterodactylId := Some (obj_id pterodactylNode),
        locationId := Some (obj_id location),
        daemonToken := Some encrypted,
        status := ''installing'',
        enrollmentToken := None,
        enrollmentExpiresAt := None \<rparr>"

text \<open>The default allocations: \<open>nodeData.privateIp || nodeData.publicIp\<close> and 100 ports.\<close>

definition default_allocations :: "nodeData \<Rightarrow> request_data" where
  "default_allocations nodeData =
     CreateAllocationDto
       (if truthy (nd_privateIp nodeData) then the (nd_privateIp nodeData)
        else nd_publicIp nodeData)
       (map (\<lambda>i. 25565 + int i) [0..<100])"

text \<open>
  \<open>enrollNode\<close>, with the database and the world passed through.  An exception leaves
  both as they are at the point where it is thrown; reading a property of \<open>null\<close> or
  \<open>undefined\<close> is a \<open>TypeError\<close>.

  \<open>enrollNode_provision\<close> is the function from the first call to the daemon on, for
  the row \<open>node\<close> that \<open>findUnique\<close> has returned.  Every call in it is awaited, so
  the database it runs on may have been written by other requests since the row was read.
\<close>

definition enrollNode_provision ::
  "PterodactylService \<Rightarrow> (nat \<Rightarrow> byte) \<Rightarrow> Node \<Rightarrow> nodeData \<Rightarrow> db \<Rightarrow> world
     \<Rightarrow> (error + enroll_result) \<times> db \<times> world" where
  "enrollNode_provision ps entropy node nodeData d w =
     (case node_tenant d node of
        None \<Rightarrow> (Inl (TypeError ''Cannot read properties of null''), d, w)
      | Some tenant \<Rightarrow>
         (case createLocation ps
                 (CreateLocationDto (''loc-'' @ take 8 (tenantId node))
                    (''Location for '' @ tenant_name tenant)) w of
            (Inl e, w1) \<Rightarrow> (Inl e, d, w1)
          | (Inr None, w1) \<Rightarrow>
              (Inl (TypeError ''Cannot read properties of undefined''), d, w1)
          | (Inr (Some location), w1) \<Rightarrow>
             (case createNode ps
                     (CreateNodeDto (nd_name nodeData)
                        (''Node for tenant '' @ tenant_name tenant)
                        (obj_id location) (nd_fqdn nodeData)
                        (nd_memoryMb nodeData) (nd_diskGb nodeData) False) w1 of
                (Inl e, w2) \<Rightarrow> (Inl e, d, w2)
              | (Inr None, w2) \<Rightarrow>
                  (Inl (TypeError ''Cannot read properties of undefined''), d, w2)
              | (Inr (Some pterodactylNode), w2) \<Rightarrow>
                 (case encryptApiKey ps entropy (obj_daemon_token pterodactylNode) of
                    Inl e \<Rightarrow> (Inl e, d, w2)
                  | Inr encrypted \<Rightarrow>
                     (case node_update d (node_id node)
                             (enroll_update nodeData pterodactylNode location encrypted) of
                        Inl e \<Rightarrow> (Inl e, d, w2)
                      | Inr d1 \<Rightarrow>
                         (case createAllocation ps (obj_id pterodactylNode)
                                 (default_allocations nodeData) w2 of
                            (Inl e, w3) \<Rightarrow> (Inl e, d1, w3)
                          | (Inr allocation, w3) \<Rightarrow>
                             (case getNodeConfiguration ps (obj_id pterodactylNode) w3 of
                                (Inl e, w4) \<Rightarrow> (Inl e, d1, w4)
                              | (Inr daemonConfig, w4) \<Rightarrow>
                                  (Inr \<lparr> res_nodeId = node_id node,
                                         res_daemonConfig = daemonConfig \<rparr>,
                                   d1, w4))))))))"

definition enrollNode ::
  "PterodactylService \<Rightarrow> (nat \<Rightarrow> byte) \<Rightarrow> string \<Rightarrow> nodeData \<Rightarrow> int \<Rightarrow> db \<Rightarrow> world
     \<Rightarrow> (error + enroll_result) \<times> db \<times> world" where
  "enrollNode ps entropy token nodeData now d w =
     (case node_findUnique_enrollmentToken d token of
        None \<Rightarrow> (Inl (NotFoundException ''Invalid or expired enrollment token''), d, w)
      | Some node \<Rightarrow>
          if date_before (enrollmentExpiresAt node) now
          then (Inl (NotFoundException ''Invalid or expired enrollment token''), d, w)
          else enrollNode_provision ps entropy node nodeData d w)"

section \<open>Agent credentials (AgentService)\<close>

text \<open>
  \<open>@nestjs/jwt\<close> is an external library, so signing and verifying are parameters:
  \<open>jwt_sign payload secret expiresIn now\<close> is the token, and
  \<open>jwt_verify token secret now\<close> is the payload of a token the library accepts, or
  the error it throws.  A payload is the list of its properties; the secret is what
  \<open>configService.get\<close> returned.
\<close>

record 'tok JwtService =
  jwt_sign :: "(string \<times> string) list \<Rightarrow> string option \<Rightarrow> string \<Rightarrow> int \<Rightarrow> 'tok"
  jwt_verify :: "'tok \<Rightarrow> string option \<Rightarrow> int \<Rightarrow> error + (string \<times> string) list"

definition agent_payload :: "string \<Rightarrow> (string \<times> string) list" where
  "agent_payload nodeId = [(''nodeId'', nodeId), (''type'', ''agent'')]"

definition generateAgentToken ::
  "'tok JwtService \<Rightarrow> ConfigService \<Rightarrow> string \<Rightarrow> int \<Rightarrow> 'tok" where
  "generateAgentToken jwt configService nodeId now =
     jwt_sign jwt (agent_payload nodeId) (configService ''AGENT_TOKEN_SECRET'') ''30d'' now"

text \<open>
  The body of the \<open>try\<close> block of \<open>authenticateAgent\<close>.  A payload without \<open>nodeId\<close>
  makes \<open>findUnique\<close> throw on its \<open>where\<close> argument.
\<close>

definition authenticateAgent_try ::
  "'tok JwtService \<Rightarrow> ConfigService \<Rightarrow> db \<Rightarrow> 'tok \<Rightarrow> int \<Rightarrow> error + Node \<times> Tenant option" where
  "authenticateAgent_try jwt configService d token now =
     (case jwt_verify jwt token (configService ''AGENT_TOKEN_SECRET'') now of
        Inl e \<Rightarrow> Inl e
      | Inr payload \<Rightarrow>
          (case map_of payload ''nodeId'' of
             None \<Rightarrow> Inl (Error ''Argument where needs at least one argument'')
           | Some nodeId \<Rightarrow>
               (case node_findUnique_id d nodeId of
                  None \<Rightarrow> Inl (UnauthorizedException ''Node not found'')
                | Some node \<Rightarrow> Inr (node, node_tenant d node))))"

definition authenticateAgent ::
  "'tok JwtService \<Rightarrow> ConfigService \<Rightarrow> db \<Rightarrow> 'tok \<Rightarrow> int \<Rightarrow> error + Node \<times> Tenant option" where
  "authenticateAgent jwt configService d token now =
     (case authenticateAgent_try jwt configService d token now of
        Inl e \<Rightarrow> Inl (UnauthorizedException ''Invalid agent token'')
      | Inr node \<Rightarrow> Inr node)"

subsection \<open>Reference instances for enrollment and credentials\<close>

text \<open>
  A token service with the interface only: the token is the payload together with the
  secret and the time it expires (30 days of milliseconds after signing).
\<close>

definition ref_jwt :: "((string \<times> string) list \<times> string option \<times> int) JwtService" where
  "ref_jwt = \<lparr>
     jwt_sign = (\<lambda>payload secret expiresIn now.
                   (payload, secret, now + (if expiresIn = ''30d'' then 2592000000 else 0))),
     jwt_verify = (\<lambda>(payload, secret, expiry) secret' now.
                     if secret = secret' \<and> now < expiry then Inr payload
                     else Inl (Error ''invalid token'')) \<rparr>"

definition ref_config :: ConfigService where
  "ref_config = [''AGENT_TOKEN_SECRET'' \<mapsto> ''s0'']"

definition ref_nodeData :: nodeData where
  "ref_nodeData = \<lparr> nd_name = ''host-1'', nd_fqdn = ''host-1.example.com'',
                    nd_publicIp = ''203.0.113.9'', nd_privateIp = None,
                    nd_cpuCores = 4, nd_memoryMb = 4096, nd_diskGb = 100 \<rparr>"

text \<open>A daemon that answers every request with the same object.\<close>

definition ref_object :: pterodactyl_object where
  "ref_object = \<lparr> obj_id = 7, obj_daemon_token = ''dtok'', obj_rest = [] \<rparr>"

definition ref_world :: world where
  "ref_world = \<lparr> daemon = (\<lambda>k r. Resolved ref_object), sent = [], slept = [] \<rparr>"

section \<open>Round trip and failure of the secret vault\<close>


lemma ref_byte_char: "word_of_nat (unat (b::byte) mod 256) = b"
proof -
  have "unat b < 256"
    using unsigned_less [of b, where ?'a = nat] by simp
  then show ?thesis by simp
qed

lemma ref_char_byte: "char_of (unat (of_nat (of_char c :: nat) :: byte)) = c"
proof -
  have "(of_char c :: nat) < 256" by simp
  then have "unat (of_nat (of_char c :: nat) :: byte) = of_char c"
    by (simp add: unat_of_nat)
  then show ?thesis by simp
qed

lemma ref_codec_base64 [simp]: "base64_decode ref_codec (base64_encode ref_codec bs) = bs"
  by (simp add: ref_codec_def ref_byte_char comp_def)

lemma ref_codec_utf8 [simp]: "utf8_decode ref_codec (utf8_encode ref_codec s) = s"
proof -
  have "map (\<lambda>c. char_of (unat (of_nat (of_char c :: nat) :: byte))) s = s"
    by (simp only: ref_char_byte map_ident)
  then show ?thesis by (simp add: ref_codec_def comp_def)
qed

lemma length_ref_tag [simp]: "length (ref_tag n k) = 16"
  by (simp add: ref_tag_def)

lemma ref_sodium_sizes [simp]:
  "crypto_secretbox_NONCEBYTES ref_sodium = 24"
  "crypto_secretbox_MACBYTES ref_sodium = 16"
  "crypto_secretbox_KEYBYTES ref_sodium = 32"
  by (simp_all add: ref_sodium_def)

lemma ref_sodium_easy [simp]:
  "crypto_secretbox_easy ref_sodium m n k = Some (ref_tag n k @ m)"
  by (simp add: ref_sodium_def)


lemma ref_encryption_sel [simp]:
  "enc_sodium (ref_encryption k) = ref_sodium"
  "enc_codec (ref_encryption k) = ref_codec"
  "enc_key (ref_encryption k) = k"
  by (simp_all add: ref_encryption_def)






section \<open>The retrying request\<close>

declare makeRequest_loop.simps [simp del]

lemma makeRequest_loop_sent:
  "\<exists>n. n \<le> retries + 1 - attempt \<and>
       sent (snd (makeRequest_loop config retries attempt w)) = sent w @ replicate n config
     \<and> daemon (snd (makeRequest_loop config retries attempt w)) = daemon w"
proof (induction config retries attempt w rule: makeRequest_loop.induct)
  case (1 config retries attempt w)
  show ?case
  proof (cases "attempt \<le> retries")
    case False
    then show ?thesis by (simp add: makeRequest_loop.simps exI [of _ 0])
  next
    case le: True
    show ?thesis
    proof (cases "daemon w (length (sent w)) config")
      case (Resolved d)
      with le show ?thesis
        by (simp add: makeRequest_loop.simps exI [of _ 1])
    next
      case (Rejected message st)
      show ?thesis
      proof (cases "attempt = retries")
        case True
        with le Rejected show ?thesis by (simp add: makeRequest_loop.simps exI [of _ 1])
      next
        case False
        let ?w = "w\<lparr>sent := sent w @ [config], slept := slept w @ [2 ^ attempt * 1000]\<rparr>"
        from "1.IH" [OF le Rejected False]
        obtain n where n: "n \<le> retries + 1 - (attempt + 1)"
          "sent (snd (makeRequest_loop config retries (attempt + 1) ?w)) = sent ?w @ replicate n config"
          "daemon (snd (makeRequest_loop config retries (attempt + 1) ?w)) = daemon ?w"
          by blast
        have eq: "makeRequest_loop config retries attempt w = makeRequest_loop config retries (attempt + 1) ?w"
          using le Rejected False by (simp add: makeRequest_loop.simps)
        show ?thesis
          unfolding eq using n le False
          by (intro exI [of _ "Suc n"]) (simp add: replicate_app_Cons_same)
      qed
    qed
  qed
qed

lemma makeRequest_loop_three_failures:
  assumes "daemon w (length (sent w)) cfg = Rejected m1 s1"
    and "daemon w (length (sent w) + 1) cfg = Rejected m2 s2"
    and "daemon w (length (sent w) + 2) cfg = Rejected m3 s3"
  shows "makeRequest_loop cfg 3 1 w =
           (Inl (HttpException (''Pterodactyl API request failed: '' @ m3) (status_or_500 s3)),
            w\<lparr>sent := sent w @ [cfg, cfg, cfg], slept := slept w @ [2000, 4000]\<rparr>)"
  using assms by (simp add: makeRequest_loop.simps numeral_2_eq_2)

text \<open>
  C8 (amended).  \<open>makeRequest\<close> does not look at the cause of a failure: when the
  first three attempts of a call are rejected, with whatever status (a 4xx as well as a
  5xx or no response at all), all three are made, the delays awaited between them are
  2000 ms and 4000 ms, and the call then throws \<open>HttpException\<close> with the last
  error's message and status (500 when it has none).  No call makes more than 3 attempts.
\<close>

theorem makeRequest_retries_every_failure:
  assumes "cfg = request_config ps method endpoint data"
    and "daemon w (length (sent w)) cfg = Rejected m1 s1"
    and "daemon w (length (sent w) + 1) cfg = Rejected m2 s2"
    and "daemon w (length (sent w) + 2) cfg = Rejected m3 s3"
  shows "makeRequest ps method endpoint data 3 w =
           (Inl (HttpException (''Pterodactyl API request failed: '' @ m3) (status_or_500 s3)),
            w\<lparr>sent := sent w @ [cfg, cfg, cfg], slept := slept w @ [2000, 4000]\<rparr>)
       \<and> length (sent (snd (makeRequest ps method endpoint data 3 w'))) \<le> length (sent w') + 3"
proof -
  obtain n where "n \<le> 3 + 1 - 1"
    and "sent (snd (makeRequest_loop (request_config ps method endpoint data) 3 1 w'))
           = sent w' @ replicate n (request_config ps method endpoint data)"
    using makeRequest_loop_sent [of 3 1 "request_config ps method endpoint data" w'] by blast
  then have "length (sent (snd (makeRequest ps method endpoint data 3 w'))) \<le> length (sent w') + 3"
    by (simp add: makeRequest_def)
  then show ?thesis
    using assms makeRequest_loop_three_failures [of w cfg m1 s1 m2 s2 m3 s3]
    by (simp add: makeRequest_def)
qed

theorem makeRequest_retries_every_failure_witness:
  "length (sent (snd (makeRequest ref_service ''POST'' ''/locations''
                       (CreateLocationDto ''loc-t1'' ''Location for T'') 3
                       \<lparr> daemon = (\<lambda>k r. Rejected [] None), sent = [], slept = [] \<rparr>))) \<le> 3
   \<and> makeRequest ref_service ''POST'' ''/locations'' (CreateLocationDto ''loc-t1'' ''Location for T'') 3
     \<lparr> daemon = (\<lambda>k r. Rejected ''Request failed with status code 400'' (Some 400)),
       sent = [], slept = [] \<rparr>
   = (Inl (HttpException ''Pterodactyl API request failed: Request failed with status code 400'' 400),
      \<lparr> daemon = (\<lambda>k r. Rejected ''Request failed with status code 400'' (Some 400)),
        sent = replicate 3 (request_config ref_service ''POST'' ''/locations''
                              (CreateLocationDto ''loc-t1'' ''Location for T'')),
        slept = [2000, 4000] \<rparr>)"
  using makeRequest_retries_every_failure
    [of "request_config ref_service ''POST'' ''/locations'' (CreateLocationDto ''loc-t1'' ''Location for T'')"
        ref_service "''POST''" "''/locations''" "CreateLocationDto ''loc-t1'' ''Location for T''"
        "\<lparr> daemon = (\<lambda>k r. Rejected ''Request failed with status code 400'' (Some 400)),
           sent = [], slept = [] \<rparr>"
        "''Request failed with status code 400''" "Some 400"
        "''Request failed with status code 400''" "Some 400"
        "''Request failed with status code 400''" "Some 400"
        "\<lparr> daemon = (\<lambda>k r. Rejected [] None), sent = [], slept = [] \<rparr>"]
  by (simp add: status_or_500_def numeral_3_eq_3)

text \<open>
  C8 as stated fails: a call whose first attempt is answered with HTTP 400 is attempted
  again after 2000 ms, and returns the second attempt's response.
\<close>

theorem makeRequest_retries_http_400:
  "makeRequest ref_service ''POST'' ''/locations'' (CreateLocationDto ''loc-t1'' ''Location for T'') 3
     \<lparr> daemon = (\<lambda>k r. if k = 0 then Rejected ''Request failed with status code 400'' (Some 400)
                        else Resolved \<lparr> obj_id = 5, obj_daemon_token = [], obj_rest = [] \<rparr>),
       sent = [], slept = [] \<rparr>
   = (Inr (Some \<lparr> obj_id = 5, obj_daemon_token = [], obj_rest = [] \<rparr>),
      \<lparr> daemon = (\<lambda>k r. if k = 0 then Rejected ''Request failed with status code 400'' (Some 400)
                        else Resolved \<lparr> obj_id = 5, obj_daemon_token = [], obj_rest = [] \<rparr>),
        sent = replicate 2 (request_config ref_service ''POST'' ''/locations''
                              (CreateLocationDto ''loc-t1'' ''Location for T'')),
        slept = [2000] \<rparr>)"
  by (simp add: makeRequest_def makeRequest_loop.simps numeral_2_eq_2)

section \<open>Construction of the client\<close>



section \<open>Heartbeats\<close>

lemma find_map_update_id:
  assumes "\<And>n. node_id (f n) = node_id n"
  shows "find (\<lambda>n. node_id n = i) (map (\<lambda>n. if node_id n = i then f n else n) xs)
           = map_option f (find (\<lambda>n. node_id n = i) xs)"
  using assms by (induction xs) auto

lemma find_Some_set: "find P xs = Some x \<Longrightarrow> \<exists>y \<in> set xs. P y"
  by (auto simp: find_Some_iff)

lemma node_update_found:
  assumes "node_findUnique_id d i = Some n"
  shows "node_update d i f
           = Inr (d\<lparr>nodes := map (\<lambda>n. if node_id n = i then f n else n) (nodes d)\<rparr>)"
  using find_Some_set [of "\<lambda>n. node_id n = i" "nodes d" n] assms
  by (simp add: node_update_def node_findUnique_id_def)

lemma node_id_heartbeat_update [simp]: "node_id (heartbeat_update m now n) = node_id n"
  by (simp add: heartbeat_update_def)

lemma handleHeartbeat_found:
  assumes "node_findUnique_id d nodeId = Some n"
  shows "handleHeartbeat nodeId m now d =
           (Inr ''ok'',
            d\<lparr>nodes := map (\<lambda>n. if node_id n = nodeId then heartbeat_update m now n else n) (nodes d),
               nodeMetrics := nodeMetrics d @
                  (case hb_system m of None \<Rightarrow> [] | Some sys \<Rightarrow> [heartbeat_metric nodeId sys now])\<rparr>)"
  using node_update_found [OF assms, of "heartbeat_update m now"]
  by (simp add: handleHeartbeat_def nodeMetric_create_def split: option.split)

lemma handleHeartbeat_find:
  assumes "node_findUnique_id d nodeId = Some n"
  shows "node_findUnique_id (snd (handleHeartbeat nodeId m now d)) nodeId
           = Some (heartbeat_update m now n)"
  using assms find_map_update_id [of "heartbeat_update m now" nodeId "nodes d"]
  by (simp add: handleHeartbeat_found [OF assms] node_findUnique_id_def)

text \<open>
  C3 (amended).  For every node, \<open>handleHeartbeat\<close> answers \<open>ok\<close>, sets
  \<open>lastHeartbeat\<close> to the current time and sets \<open>status\<close> to \<open>online\<close>, whatever the
  status was before: there is no test for \<open>error\<close>.
\<close>

theorem handleHeartbeat_sets_online:
  assumes "node_findUnique_id d nodeId = Some n"
  shows "fst (handleHeartbeat nodeId m now d) = Inr ''ok''
       \<and> (\<exists>n'. node_findUnique_id (snd (handleHeartbeat nodeId m now d)) nodeId = Some n'
              \<and> lastHeartbeat n' = Some now \<and> status n' = ''online'')"
  using handleHeartbeat_find [OF assms, of m now] handleHeartbeat_found [OF assms, of m now]
  by (simp add: heartbeat_update_def)

theorem handleHeartbeat_sets_online_witness:
  "fst (handleHeartbeat ''n1'' ref_heartbeat 1000 ref_db) = Inr ''ok''
   \<and> (\<exists>n'. node_findUnique_id (snd (handleHeartbeat ''n1'' ref_heartbeat 1000 ref_db)) ''n1''
              = Some n'
          \<and> lastHeartbeat n' = Some 1000 \<and> status n' = ''online'')"
  using handleHeartbeat_sets_online [of ref_db "''n1''" ref_node ref_heartbeat 1000]
  by (simp add: node_findUnique_id_def ref_db_def ref_node_def)

text \<open>
  C3 as stated fails: a heartbeat for a node whose status is \<open>error\<close> leaves it
  \<open>online\<close>.
\<close>

theorem handleHeartbeat_error_to_online:
  "map status (nodes (snd (handleHeartbeat ''n1'' ref_heartbeat 1000
                             (ref_db\<lparr>nodes := [ref_node\<lparr>status := ''error''\<rparr>]\<rparr>))))
     = [''online'']"
  by (simp add: handleHeartbeat_def node_update_def nodeMetric_create_def heartbeat_update_def
        ref_db_def ref_node_def ref_heartbeat_def)

lemma updateHeartbeat_nodes:
  assumes "node_findUnique_id d nodeId = Some n"
  shows "nodes (snd (updateHeartbeat nodeId sm now d))
           = map (\<lambda>n. if node_id n = nodeId
                       then n\<lparr> lastHeartbeat := Some now, status := ''online'' \<rparr> else n) (nodes d)"
  using node_update_found [OF assms, of "\<lambda>n. n\<lparr> lastHeartbeat := Some now, status := ''online'' \<rparr>"]
  by (simp add: updateHeartbeat_def nodeMetric_create_def split: option.split)

lemma updateHeartbeat_find:
  assumes "node_findUnique_id d nodeId = Some n"
  shows "node_findUnique_id (snd (updateHeartbeat nodeId sm now d)) nodeId
           = Some (n\<lparr> lastHeartbeat := Some now, status := ''online'' \<rparr>)"
  using assms
    find_map_update_id [of "\<lambda>n. n\<lparr> lastHeartbeat := Some now, status := ''online'' \<rparr>" nodeId "nodes d"]
  by (simp add: updateHeartbeat_nodes [OF assms] node_findUnique_id_def)

text \<open>
  C4 (amended).  A node whose status is \<open>pending\<close> has status \<open>online\<close> after one
  \<open>handleHeartbeat\<close>, and after one \<open>updateHeartbeat\<close>: both write \<open>online\<close> without
  reading the status, so the step from \<open>pending\<close> to \<open>online\<close> does not pass through
  \<open>installing\<close>.
\<close>

theorem heartbeat_takes_pending_to_online:
  assumes "node_findUnique_id d nodeId = Some n" and "status n = ''pending''"
  shows "(\<exists>n'. node_findUnique_id (snd (handleHeartbeat nodeId m now d)) nodeId = Some n'
              \<and> status n' = ''online'')
       \<and> (\<exists>n'. node_findUnique_id (snd (updateHeartbeat nodeId sm now d)) nodeId = Some n'
              \<and> status n' = ''online'')"
  using handleHeartbeat_find [OF assms(1), of m now] updateHeartbeat_find [OF assms(1), of sm now]
  by (simp add: heartbeat_update_def)

theorem heartbeat_takes_pending_to_online_witness:
  "status ref_node = ''pending''
   \<and> (\<exists>n'. node_findUnique_id (snd (handleHeartbeat ''n1'' ref_heartbeat 1000 ref_db)) ''n1''
              = Some n' \<and> status n' = ''online'')
   \<and> (\<exists>n'. node_findUnique_id
              (snd (updateHeartbeat ''n1'' ref_system 1000 ref_db)) ''n1''
              = Some n' \<and> status n' = ''online'')"
  using heartbeat_takes_pending_to_online
          [of ref_db "''n1''" ref_node ref_heartbeat 1000 ref_system]
  by (simp add: node_findUnique_id_def ref_db_def ref_node_def)

text \<open>
  C4 as stated fails: one \<open>handleHeartbeat\<close> on the pending node of the reference
  database leaves it \<open>online\<close>.
\<close>

theorem handleHeartbeat_pending_to_online:
  "map status (nodes ref_db) = [''pending'']
   \<and> map status (nodes (snd (handleHeartbeat ''n1'' ref_heartbeat 1000 ref_db))) = [''online'']"
  by (simp add: handleHeartbeat_def node_update_def nodeMetric_create_def heartbeat_update_def
        ref_db_def ref_node_def ref_heartbeat_def)


lemma ref_db_find_n1: "node_findUnique_id ref_db ''n1'' = Some ref_node"
  by (simp add: node_findUnique_id_def ref_db_def ref_node_def)






section \<open>Enrollment\<close>

declare digits.simps [simp del]

lemma enrollNode_absent:
  "node_findUnique_enrollmentToken d token = None \<Longrightarrow>
   enrollNode ps entropy token nodeData now d w
     = (Inl (NotFoundException ''Invalid or expired enrollment token''), d, w)"
  by (simp add: enrollNode_def)

lemma enrollNode_success:
  assumes "fst (enrollNode ps entropy token nodeData now d w) = Inr r"
  shows "\<exists>node f. node_findUnique_enrollmentToken d token = Some node
           \<and> \<not> date_before (enrollmentExpiresAt node) now
           \<and> res_nodeId r = node_id node
           \<and> (\<forall>n. enrollmentToken (f n) = None \<and> status (f n) = ''installing'')
           \<and> fst (snd (enrollNode ps entropy token nodeData now d w))
               = d\<lparr>nodes := map (\<lambda>n. if node_id n = node_id node then f n else n) (nodes d)\<rparr>"
proof (cases "node_findUnique_enrollmentToken d token")
  case None
  with assms show ?thesis by (simp add: enrollNode_def)
next
  case (Some node)
  from assms Some have "\<exists>pn loc enc.
      \<not> date_before (enrollmentExpiresAt node) now \<and> res_nodeId r = node_id node \<and>
      fst (snd (enrollNode ps entropy token nodeData now d w))
        = d\<lparr>nodes := map (\<lambda>n. if node_id n = node_id node
                                 then enroll_update nodeData pn loc enc n else n) (nodes d)\<rparr>"
    by (auto simp: enrollNode_def enrollNode_provision_def node_update_def
             split: option.splits if_splits sum.splits prod.splits)
  then obtain pn loc enc where
      "\<not> date_before (enrollmentExpiresAt node) now" "res_nodeId r = node_id node"
      "fst (snd (enrollNode ps entropy token nodeData now d w))
        = d\<lparr>nodes := map (\<lambda>n. if node_id n = node_id node
                                 then enroll_update nodeData pn loc enc n else n) (nodes d)\<rparr>"
    by blast
  with Some show ?thesis
    by (intro exI [of _ node] exI [of _ "enroll_update nodeData pn loc enc"])
       (simp add: enroll_update_def)
qed

lemma token_owner_unique:
  assumes "distinct (filter (\<lambda>t. t \<noteq> None) (map enrollmentToken xs))"
    and "find (\<lambda>n. enrollmentToken n = Some token) xs = Some node"
    and "m \<in> set xs" and "enrollmentToken m = Some token"
  shows "m = node"
  using assms
proof (induction xs)
  case Nil
  then show ?case by simp
next
  case (Cons x xs)
  show ?case
  proof (cases "enrollmentToken x = Some token")
    case True
    with Cons.prems have "node = x" and "Some token \<notin> enrollmentToken ` set xs"
      by auto
    with Cons.prems True show ?thesis by force
  next
    case False
    with Cons.prems Cons.IH show ?thesis by (auto split: if_splits)
  qed
qed

lemma token_gone_after_update:
  assumes "unique_columns d"
    and "node_findUnique_enrollmentToken d token = Some node"
    and "\<And>n. enrollmentToken (f n) = None"
  shows "node_findUnique_enrollmentToken
           (d\<lparr>nodes := map (\<lambda>n. if node_id n = node_id node then f n else n) (nodes d)\<rparr>) token
         = None"
proof -
  have "\<And>m. m \<in> set (nodes d) \<Longrightarrow> enrollmentToken m = Some token \<Longrightarrow> m = node"
    using token_owner_unique [of "nodes d" token node] assms(1,2)
    by (simp add: unique_columns_def node_findUnique_enrollmentToken_def)
  then show ?thesis
    using assms(3) by (auto simp: node_findUnique_enrollmentToken_def find_None_iff)
qed

text \<open>
  C2 (amended).  A call with the token of a node whose \<open>enrollmentExpiresAt\<close> is in
  the past throws \<open>NotFoundException\<close> with the message
  \<open>Invalid or expired enrollment token\<close>, the very error a token that no node carries
  gets; the database and the world are returned as they were, so the node keeps its
  status and its token, and no request has been sent.
\<close>

theorem enrollNode_expired_is_not_found:
  assumes "node_findUnique_enrollmentToken d token = Some node"
    and "enrollmentExpiresAt node = Some t" and "t < now"
    and "node_findUnique_enrollmentToken d token' = None"
  shows "enrollNode ps entropy token nodeData now d w
           = (Inl (NotFoundException ''Invalid or expired enrollment token''), d, w)
       \<and> enrollNode ps entropy token' nodeData now d w
           = (Inl (NotFoundException ''Invalid or expired enrollment token''), d, w)"
  using assms by (simp add: enrollNode_def date_before_def)

lemma ref_db_find_tok:
  "node_findUnique_enrollmentToken ref_db ''tok-A'' = Some ref_node"
  "node_findUnique_enrollmentToken ref_db ''tok-B'' = None"
  "enrollmentExpiresAt ref_node = Some 86400000"
  by (simp_all add: node_findUnique_enrollmentToken_def ref_db_def ref_node_def)

theorem enrollNode_expired_is_not_found_witness:
  "enrollNode ref_service (\<lambda>i. 0) ''tok-A'' ref_nodeData 86400001 ref_db ref_world
     = (Inl (NotFoundException ''Invalid or expired enrollment token''), ref_db, ref_world)
   \<and> enrollNode ref_service (\<lambda>i. 0) ''tok-B'' ref_nodeData 86400001 ref_db ref_world
     = (Inl (NotFoundException ''Invalid or expired enrollment token''), ref_db, ref_world)"
  using enrollNode_expired_is_not_found
          [of ref_db "''tok-A''" ref_node 86400000 86400001 "''tok-B''"
              ref_service "\<lambda>i. 0" ref_nodeData ref_world]
  by (simp add: ref_db_find_tok)

text \<open>
  C2 as stated fails: at 24 hours and one millisecond the expired token \<open>tok-A\<close> and
  the unknown token \<open>tok-B\<close> get the same error.
\<close>

theorem enrollNode_expired_same_error_as_unknown:
  "fst (enrollNode ref_service (\<lambda>i. 0) ''tok-A'' ref_nodeData 86400001 ref_db ref_world)
     = Inl (NotFoundException ''Invalid or expired enrollment token'')
   \<and> fst (enrollNode ref_service (\<lambda>i. 0) ''tok-B'' ref_nodeData 86400001 ref_db ref_world)
     = Inl (NotFoundException ''Invalid or expired enrollment token'')"
  by (simp add: enrollNode_def date_before_def ref_db_find_tok)

text \<open>
  C1 (amended).  On a table whose ids and enrollment tokens are unique, a successful
  \<open>enrollNode\<close> leaves no row carrying the token, so every later call with the same
  token, whatever it reports and whenever it is made, throws the
  \<open>NotFoundException\<close> of an unknown token and changes nothing.
\<close>

theorem enrollNode_token_single_use:
  assumes "unique_columns d"
    and "fst (enrollNode ps entropy token nodeData now d w) = Inr r"
    and "d' = fst (snd (enrollNode ps entropy token nodeData now d w))"
  shows "node_findUnique_enrollmentToken d' token = None
       \<and> enrollNode ps' entropy' token nodeData' now' d' w'
           = (Inl (NotFoundException ''Invalid or expired enrollment token''), d', w')"
proof -
  obtain node f where
      "node_findUnique_enrollmentToken d token = Some node"
      "\<forall>n. enrollmentToken (f n) = None \<and> status (f n) = ''installing''"
      "d' = d\<lparr>nodes := map (\<lambda>n. if node_id n = node_id node then f n else n) (nodes d)\<rparr>"
    using enrollNode_success [OF assms(2)] assms(3) by auto
  then have "node_findUnique_enrollmentToken d' token = None"
    using token_gone_after_update [OF assms(1), of token node f] by simp
  then show ?thesis
    by (simp add: enrollNode_absent)
qed

lemma makeRequest_resolved:
  assumes "daemon w (length (sent w)) (request_config ps method endpoint data) = Resolved obj"
  shows "makeRequest ps method endpoint data 3 w
           = (Inr (Some obj), w\<lparr>sent := sent w @ [request_config ps method endpoint data]\<rparr>)"
  using assms by (simp add: makeRequest_def makeRequest_loop.simps)

lemma ref_world_daemon [simp]:
  "daemon (ref_world\<lparr>sent := s\<rparr>) = (\<lambda>k r. Resolved ref_object)"
  "daemon ref_world = (\<lambda>k r. Resolved ref_object)"
  by (simp_all add: ref_world_def)

lemma ref_db_tenant: "node_tenant ref_db ref_node
                        = Some \<lparr> tenant_id = ''tenant-0001'', tenant_name = ''Demo'' \<rparr>"
  by (simp add: node_tenant_def ref_db_def ref_node_def)

lemma ref_encryptApiKey:
  "encryptApiKey ref_service entropy k
     = Inr (base64_encode ref_codec
              (randombytes_buf entropy 24 @ ref_tag (randombytes_buf entropy 24) (replicate 32 7)
               @ utf8_encode ref_codec k))"
  by (simp add: encryptApiKey_def ref_service_def encrypt_def Let_def)

lemma ref_node_update:
  "node_update ref_db (node_id ref_node) f = Inr (ref_db\<lparr>nodes := [f ref_node]\<rparr>)"
  by (simp add: node_update_def ref_db_def)

lemma ref_enroll:
  "fst (enrollNode ref_service (\<lambda>i. 0) ''tok-A'' ref_nodeData 1000 ref_db ref_world)
     = Inr \<lparr> res_nodeId = ''n1'', res_daemonConfig = Some ref_object \<rparr>"
  "fst (snd (enrollNode ref_service (\<lambda>i. 0) ''tok-A'' ref_nodeData 1000 ref_db ref_world))
     = ref_db\<lparr>nodes := [enroll_update ref_nodeData ref_object ref_object
                           (base64_encode ref_codec
                             (randombytes_buf (\<lambda>i. 0) 24
                              @ ref_tag (randombytes_buf (\<lambda>i. 0) 24) (replicate 32 7)
                              @ utf8_encode ref_codec ''dtok''))
                           ref_node]\<rparr>"
  by (simp_all add: enrollNode_def enrollNode_provision_def ref_db_find_tok date_before_def
        ref_db_tenant createLocation_def createNode_def createAllocation_def getNodeConfiguration_def
        makeRequest_resolved ref_encryptApiKey ref_node_update)
     (simp_all add: ref_node_def ref_object_def)

lemma ref_db_unique: "unique_columns ref_db"
  by (simp add: unique_columns_def ref_db_def)

theorem enrollNode_token_single_use_witness:
  "unique_columns ref_db
   \<and> fst (enrollNode ref_service (\<lambda>i. 0) ''tok-A'' ref_nodeData 1000 ref_db ref_world)
       = Inr \<lparr> res_nodeId = ''n1'', res_daemonConfig = Some ref_object \<rparr>
   \<and> enrollNode ref_service (\<lambda>i. 1) ''tok-A'' ref_nodeData 2000
        (fst (snd (enrollNode ref_service (\<lambda>i. 0) ''tok-A'' ref_nodeData 1000 ref_db ref_world)))
        ref_world
       = (Inl (NotFoundException ''Invalid or expired enrollment token''),
          fst (snd (enrollNode ref_service (\<lambda>i. 0) ''tok-A'' ref_nodeData 1000 ref_db ref_world)),
          ref_world)"
  using enrollNode_token_single_use
          [of ref_db ref_service "\<lambda>i. 0" "''tok-A''" ref_nodeData 1000 ref_world
              "\<lparr> res_nodeId = ''n1'', res_daemonConfig = Some ref_object \<rparr>"
              "fst (snd (enrollNode ref_service (\<lambda>i. 0) ''tok-A'' ref_nodeData 1000 ref_db ref_world))"
              ref_service "\<lambda>i. 1" ref_nodeData 2000 ref_world]
        ref_db_unique ref_enroll(1)
  by simp

text \<open>
  C1 as stated fails: after the enrollment with \<open>tok-A\<close> has succeeded, a second call
  with \<open>tok-A\<close> gets \<open>NotFoundException\<close>, the error of the unknown token \<open>tok-B\<close>.
\<close>

theorem enrollNode_second_call_not_found:
  "fst (enrollNode ref_service (\<lambda>i. 0) ''tok-A'' ref_nodeData 1000 ref_db ref_world)
       = Inr \<lparr> res_nodeId = ''n1'', res_daemonConfig = Some ref_object \<rparr>
   \<and> fst (enrollNode ref_service (\<lambda>i. 0) ''tok-A'' ref_nodeData 2000
        (fst (snd (enrollNode ref_service (\<lambda>i. 0) ''tok-A'' ref_nodeData 1000 ref_db ref_world)))
        ref_world)
       = Inl (NotFoundException ''Invalid or expired enrollment token'')
   \<and> fst (enrollNode ref_service (\<lambda>i. 0) ''tok-B'' ref_nodeData 2000
        (fst (snd (enrollNode ref_service (\<lambda>i. 0) ''tok-A'' ref_nodeData 1000 ref_db ref_world)))
        ref_world)
       = Inl (NotFoundException ''Invalid or expired enrollment token'')"
  by (simp add: ref_enroll)
     (simp add: enrollNode_def node_findUnique_enrollmentToken_def enroll_update_def)

text \<open>
  The lookup and the update are separate awaited calls, and the update is keyed on the
  node id alone.  A request that read the row of \<open>tok-A\<close> before another request
  consumed the token therefore completes as well: on the database that the first
  enrollment left, the rest of \<open>enrollNode\<close> for the row read earlier succeeds again.
\<close>

lemma enrollNode_provision_after_consumption:
  "fst (enrollNode ref_service (\<lambda>i. 0) ''tok-A'' ref_nodeData 1000 ref_db ref_world)
     = Inr \<lparr> res_nodeId = ''n1'', res_daemonConfig = Some ref_object \<rparr>
   \<and> fst (enrollNode_provision ref_service (\<lambda>i. 1) ref_node ref_nodeData
             (fst (snd (enrollNode ref_service (\<lambda>i. 0) ''tok-A'' ref_nodeData 1000
                          ref_db ref_world)))
             ref_world)
     = Inr \<lparr> res_nodeId = ''n1'', res_daemonConfig = Some ref_object \<rparr>"
  by (simp add: ref_enroll)
     (simp add: enrollNode_provision_def node_tenant_def node_update_def
        createLocation_def createNode_def createAllocation_def getNodeConfiguration_def
        makeRequest_resolved ref_encryptApiKey ref_db_def ref_node_def enroll_update_def)

section \<open>Agent credentials\<close>

text \<open>
  C9 (amended).  The credential \<open>generateAgentToken\<close> issues for a node is the token
  the JWT service signs, under \<open>AGENT_TOKEN_SECRET\<close> and with \<open>expiresIn\<close> 30 days,
  over exactly two claims: the node id and the type \<open>agent\<close> (no tenant id).  Whenever
  the JWT service later verifies that token and returns its \<open>nodeId\<close> claim,
  \<open>authenticateAgent\<close> resolves it to the stored node with that same id.
\<close>

theorem agent_token_resolves_to_node:
  assumes "jwt_verify jwt (generateAgentToken jwt configService nodeId now0)
             (configService ''AGENT_TOKEN_SECRET'') now1 = Inr claims"
    and "map_of claims ''nodeId'' = Some nodeId"
    and "node_findUnique_id d nodeId = Some n"
  shows "generateAgentToken jwt configService nodeId now0
           = jwt_sign jwt [(''nodeId'', nodeId), (''type'', ''agent'')]
               (configService ''AGENT_TOKEN_SECRET'') ''30d'' now0
       \<and> authenticateAgent jwt configService d
             (generateAgentToken jwt configService nodeId now0) now1
           = Inr (n, node_tenant d n)
       \<and> node_id n = nodeId"
proof -
  have "node_id n = nodeId"
    using assms(3) by (auto simp: node_findUnique_id_def find_Some_iff)
  moreover have "authenticateAgent_try jwt configService d
                   (generateAgentToken jwt configService nodeId now0) now1
                 = Inr (n, node_tenant d n)"
    using assms by (simp add: authenticateAgent_try_def)
  ultimately show ?thesis
    by (simp add: authenticateAgent_def generateAgentToken_def agent_payload_def)
qed

lemma ref_jwt_sel:
  "jwt_sign ref_jwt payload secret ''30d'' now = (payload, secret, now + 2592000000)"
  "jwt_verify ref_jwt (payload, secret, expiry) secret' now
     = (if secret = secret' \<and> now < expiry then Inr payload else Inl (Error ''invalid token''))"
  by (simp_all add: ref_jwt_def)

theorem agent_token_resolves_to_node_witness:
  "generateAgentToken ref_jwt ref_config ''n1'' 0
     = jwt_sign ref_jwt [(''nodeId'', ''n1''), (''type'', ''agent'')]
         (ref_config ''AGENT_TOKEN_SECRET'') ''30d'' 0
   \<and> authenticateAgent ref_jwt ref_config ref_db
        (generateAgentToken ref_jwt ref_config ''n1'' 0) 1000
     = Inr (ref_node, node_tenant ref_db ref_node)
   \<and> node_id ref_node = ''n1''"
  using agent_token_resolves_to_node
          [of ref_jwt ref_config "''n1''" 0 1000 "agent_payload ''n1''" ref_db ref_node]
  by (simp add: generateAgentToken_def ref_jwt_sel ref_config_def agent_payload_def
        ref_db_find_n1)

text \<open>
  C9 as stated fails: the token issued for node \<open>n1\<close> carries the claims \<open>nodeId\<close>
  and \<open>type\<close>, and no tenant id.
\<close>

theorem agent_token_has_no_tenant_claim:
  "generateAgentToken ref_jwt ref_config ''n1'' 0
     = ([(''nodeId'', ''n1''), (''type'', ''agent'')], Some ''s0'', 2592000000)
   \<and> map_of (agent_payload ''n1'') ''tenantId'' = None"
  by (simp add: generateAgentToken_def ref_jwt_sel ref_config_def agent_payload_def)

end
